theory Spec2Isabelle
  imports Main
begin

section \<open>The API response envelope of \<open>types/api-response.py\<close>\<close>

subsection \<open>Python values\<close>

text \<open>
  The payload of an envelope is typed \<open>Any\<close>. The values a handler can put there are
  modelled as a JSON-like datatype; \<open>PNone\<close> is Python's \<open>None\<close>, the only value for
  which \<open>x is not None\<close> is false. Falsy values (\<open>PInt 0\<close>, \<open>PBool False\<close>,
  \<open>PStr []\<close>, \<open>PList []\<close>, \<open>PDict []\<close>) are all different from \<open>PNone\<close>.
\<close>

datatype pyval =
    PNone
  | PBool bool
  | PInt int
  | PStr string
  | PList "pyval list"
  | PDict "(string \<times> pyval) list"

text \<open>A Python \<open>dict\<close> with string keys, as returned by \<open>to_dict\<close>.\<close>

type_synonym pydict = "string \<rightharpoonup> pyval"

text \<open>
  The exceptions the operations modelled below can raise: a call that does not
  bind a required parameter (\<open>TypeError\<close>), a read of an attribute an object does
  not have (\<open>AttributeError\<close>), a rejected field of the pydantic model
  (\<open>ValidationError\<close>), an assignment to a frozen dataclass
  (\<open>FrozenInstanceError\<close>). \<open>Inl\<close> is the raised exception, \<open>Inr\<close> the value
  returned.
\<close>

datatype py_error = TypeError | AttributeError | ValidationError | FrozenInstanceError

definition py_bind :: "py_error + 'a \<Rightarrow> ('a \<Rightarrow> py_error + 'b) \<Rightarrow> py_error + 'b" where
  "py_bind r f = (case r of Inl x \<Rightarrow> Inl x | Inr v \<Rightarrow> f v)"

subsection \<open>The pydantic form\<close>

text \<open>
  \<^verbatim>\<open>
  class ApiResponse(BaseModel, Generic[T]):
      success: bool
      data: Optional[T] = None
      error: Optional[str] = None
  \<close>
\<close>

record ApiResponse =
  success :: bool
  data :: pyval
  error :: "string option"







subsection \<open>The dataclass form\<close>

text \<open>
  \<^verbatim>\<open>
  @dataclass
  class ApiResponseDC:
      success: bool
      data: Any = field(default=None)
      error: Optional[str] = field(default=None)
  \<close>
  The generated constructor takes \<open>success\<close> and the two keywords \<open>data\<close> and
  \<open>error\<close>, each of which may be left out (\<open>None\<close> below) and then takes its
  default, Python's \<open>None\<close>. It checks nothing.
\<close>

record ApiResponseDC =
  success :: bool
  data :: pyval
  error :: "string option"

definition ApiResponseDC_init :: "bool \<Rightarrow> pyval option \<Rightarrow> string option option \<Rightarrow> ApiResponseDC" where
  "ApiResponseDC_init success_arg data_kw error_kw =
     \<lparr>success = success_arg,
      data = (case data_kw of None \<Rightarrow> PNone | Some v \<Rightarrow> v),
      error = (case error_kw of None \<Rightarrow> None | Some m \<Rightarrow> m)\<rparr>"

text \<open>
  \<open>to_dict\<close> builds its result by assigning into a local dictionary. The frame of
  a call holds the receiver and that local; each statement of the body is a
  function on frames.
  \<^verbatim>\<open>
  def to_dict(self) -> dict:
      result: dict = {"success": self.success}
      if self.data is not None:
          result["data"] = self.data
      if self.error is not None:
          result["error"] = self.error
      return result
  \<close>
\<close>

record to_dict_frame =
  self :: ApiResponseDC
  result :: pydict

definition to_dict_enter :: "ApiResponseDC \<Rightarrow> to_dict_frame" where
  "to_dict_enter e = \<lparr>self = e, result = Map.empty\<rparr>"

definition stmt_success :: "to_dict_frame \<Rightarrow> to_dict_frame" where
  "stmt_success fr = fr\<lparr>result := [''success'' \<mapsto> PBool (success (self fr))]\<rparr>"

definition stmt_data :: "to_dict_frame \<Rightarrow> to_dict_frame" where
  "stmt_data fr =
     (if data (self fr) \<noteq> PNone
      then fr\<lparr>result := (result fr)(''data'' \<mapsto> data (self fr))\<rparr>
      else fr)"

definition stmt_error :: "to_dict_frame \<Rightarrow> to_dict_frame" where
  "stmt_error fr =
     (case error (self fr) of
        None \<Rightarrow> fr
      | Some m \<Rightarrow> fr\<lparr>result := (result fr)(''error'' \<mapsto> PStr m)\<rparr>)"

definition to_dict_body :: "to_dict_frame \<Rightarrow> to_dict_frame" where
  "to_dict_body fr = stmt_error (stmt_data (stmt_success fr))"

definition to_dict :: "ApiResponseDC \<Rightarrow> pydict" where
  "to_dict e = result (to_dict_body (to_dict_enter e))"

subsection \<open>Helper factories\<close>

text \<open>\<^verbatim>\<open>return ApiResponseDC(success=True, data=data)\<close>\<close>

definition api_ok :: "pyval \<Rightarrow> ApiResponseDC" where
  "api_ok data_arg = ApiResponseDC_init True (Some data_arg) None"

text \<open>\<^verbatim>\<open>return ApiResponseDC(success=False, error=message)\<close>\<close>

definition api_error :: "string \<Rightarrow> ApiResponseDC" where
  "api_error message = ApiResponseDC_init False None (Some (Some message))"

subsection \<open>The dataclass as Python runs it\<close>


text \<open>
  The decorator at line 75 is a plain \<^verbatim>\<open>@dataclass\<close>: \<open>frozen\<close> keeps its default
  \<open>False\<close>. An attribute assignment \<^verbatim>\<open>e.success = b\<close>, \<^verbatim>\<open>e.data = v\<close> or
  \<^verbatim>\<open>e.error = m\<close> on an instance raises \<open>FrozenInstanceError\<close> when the class is
  frozen and replaces the field otherwise.
\<close>

definition ApiResponseDC_frozen :: bool where
  "ApiResponseDC_frozen = False"

datatype assignment = AssignSuccess bool | AssignData pyval | AssignError "string option"

definition setattr_DC :: "ApiResponseDC \<Rightarrow> assignment \<Rightarrow> py_error + ApiResponseDC" where
  "setattr_DC e a =
     (if ApiResponseDC_frozen then Inl FrozenInstanceError
      else Inr (case a of
                  AssignSuccess b \<Rightarrow> e\<lparr>success := b\<rparr>
                | AssignData v \<Rightarrow> e\<lparr>data := v\<rparr>
                | AssignError m \<Rightarrow> e\<lparr>error := m\<rparr>))"

text \<open>
  A call of the class binds its keyword arguments to the parameters of the
  generated \<^verbatim>\<open>__init__(self, success, data=None, error=None)\<close>: \<open>success\<close> has no
  default, so a call without it raises \<open>TypeError\<close>; the first binding of a
  keyword is the one looked up.
\<close>

datatype kwarg = KwSuccess bool | KwData pyval | KwError "string option"

fun kw_success :: "kwarg list \<Rightarrow> bool option" where
  "kw_success [] = None"
| "kw_success (KwSuccess b # ks) = Some b"
| "kw_success (k # ks) = kw_success ks"

fun kw_data :: "kwarg list \<Rightarrow> pyval option" where
  "kw_data [] = None"
| "kw_data (KwData v # ks) = Some v"
| "kw_data (k # ks) = kw_data ks"

fun kw_error :: "kwarg list \<Rightarrow> string option option" where
  "kw_error [] = None"
| "kw_error (KwError m # ks) = Some m"
| "kw_error (k # ks) = kw_error ks"

definition ApiResponseDC_call :: "kwarg list \<Rightarrow> py_error + ApiResponseDC" where
  "ApiResponseDC_call kws =
     (case kw_success kws of
        None \<Rightarrow> Inl TypeError
      | Some s \<Rightarrow> Inr (ApiResponseDC_init s (kw_data kws) (kw_error kws)))"



text \<open>
  An instance as Python holds it: its attributes by name. Reading an attribute
  that is not there raises \<open>AttributeError\<close>. \<open>instance_of\<close> is the instance the
  constructor leaves for an envelope: all three attributes set.
\<close>

type_synonym pyobj = "string \<rightharpoonup> pyval"


definition getattr :: "pyobj \<Rightarrow> string \<Rightarrow> py_error + pyval" where
  "getattr obj name = (case obj name of None \<Rightarrow> Inl AttributeError | Some v \<Rightarrow> Inr v)"

text \<open>
  The body of \<open>to_dict\<close> (lines 97-102) with every attribute read as the read that
  may raise; \<open>self.data\<close> and \<open>self.error\<close> are each read twice, once for the test
  and once for the store.
\<close>

definition to_dict_run :: "pyobj \<Rightarrow> py_error + pydict" where
  "to_dict_run obj =
     py_bind (getattr obj ''success'') (\<lambda>s.
     py_bind (getattr obj ''data'') (\<lambda>d.
     py_bind (if d \<noteq> PNone
              then py_bind (getattr obj ''data'') (\<lambda>d'. Inr [''success'' \<mapsto> s, ''data'' \<mapsto> d'])
              else Inr [''success'' \<mapsto> s]) (\<lambda>r.
     py_bind (getattr obj ''error'') (\<lambda>x.
     if x \<noteq> PNone
     then py_bind (getattr obj ''error'') (\<lambda>x'. Inr (r(''error'' \<mapsto> x')))
     else Inr r))))"

subsection \<open>Construction paths\<close>

text \<open>
  An envelope of the dataclass form comes from one of three call sites: the
  factory \<open>api_ok\<close>, the factory \<open>api_error\<close>, or a direct call of the class.
\<close>

datatype construction =
    ViaApiOk pyval
  | ViaApiError string
  | Direct bool "pyval option" "string option option"

fun build :: "construction \<Rightarrow> ApiResponseDC" where
  "build (ViaApiOk v) = api_ok v"
| "build (ViaApiError m) = api_error m"
| "build (Direct s d e) = ApiResponseDC_init s d e"

fun ok_path :: "construction \<Rightarrow> bool" where
  "ok_path (ViaApiOk v) = True"
| "ok_path (ViaApiError m) = False"
| "ok_path (Direct s d e) = False"

fun fail_path :: "construction \<Rightarrow> bool" where
  "fail_path (ViaApiOk v) = False"
| "fail_path (ViaApiError m) = True"
| "fail_path (Direct s d e) = False"

subsection \<open>Reading a mapping back\<close>

text \<open>
  Modelled from the spec: the source has no \<open>deserialize\<close>; the spec's round-trip
  property names one. It is taken to be the keyword call of the dataclass on the
  mapping, \<open>ApiResponseDC(**m)\<close>: \<open>success\<close> is required (no envelope without
  it), \<open>data\<close> and \<open>error\<close> are passed when their keys are present and take
  their defaults otherwise. A value outside the field types of the envelope
  (\<open>success\<close> not a boolean, \<open>error\<close> neither a string nor \<open>None\<close>) gives no
  envelope.
\<close>

definition deserialize :: "pydict \<Rightarrow> ApiResponseDC option" where
  "deserialize m =
     (case m ''success'' of
        Some (PBool b) \<Rightarrow>
          (case m ''error'' of
             None \<Rightarrow> Some (ApiResponseDC_init b (m ''data'') None)
           | Some PNone \<Rightarrow> Some (ApiResponseDC_init b (m ''data'') (Some None))
           | Some (PStr s) \<Rightarrow> Some (ApiResponseDC_init b (m ''data'') (Some (Some s)))
           | Some _ \<Rightarrow> None)
      | _ \<Rightarrow> None)"

section \<open>Properties\<close>

subsection \<open>Shared facts\<close>

lemma to_dict_body_self: "self (to_dict_body fr) = self fr"
  by (simp add: to_dict_body_def stmt_error_def stmt_data_def stmt_success_def
      split: option.split)

lemma to_dict_unfold:
  "to_dict e =
     (case error e of
        None \<Rightarrow>
          (if data e \<noteq> PNone
           then [''success'' \<mapsto> PBool (success e), ''data'' \<mapsto> data e]
           else [''success'' \<mapsto> PBool (success e)])
      | Some m \<Rightarrow>
          (if data e \<noteq> PNone
           then [''success'' \<mapsto> PBool (success e), ''data'' \<mapsto> data e, ''error'' \<mapsto> PStr m]
           else [''success'' \<mapsto> PBool (success e), ''error'' \<mapsto> PStr m]))"
  by (simp add: to_dict_def to_dict_body_def to_dict_enter_def stmt_error_def
      stmt_data_def stmt_success_def split: option.split)

lemma api_ok_fields:
  "success (api_ok v) = True" "data (api_ok v) = v" "error (api_ok v) = None"
  by (simp_all add: api_ok_def ApiResponseDC_init_def)

lemma api_error_fields:
  "success (api_error m) = False" "data (api_error m) = PNone" "error (api_error m) = Some m"
  by (simp_all add: api_error_def ApiResponseDC_init_def)

subsection \<open>Scenarios of the factories' docstrings\<close>

lemma scenario_api_ok:
  "to_dict (api_ok (PDict [(''id'', PStr ''usr_1''), (''email'', PStr ''dom@xomware.com'')])) =
     [''success'' \<mapsto> PBool True,
      ''data'' \<mapsto> PDict [(''id'', PStr ''usr_1''), (''email'', PStr ''dom@xomware.com'')]]"
  by (simp add: to_dict_unfold api_ok_fields)

lemma scenario_api_error:
  "to_dict (api_error ''Email is required'') =
     [''success'' \<mapsto> PBool False, ''error'' \<mapsto> PStr ''Email is required'']"
  by (simp add: to_dict_unfold api_error_fields)

lemma scenario_falsy_payloads:
  "to_dict (api_ok (PInt 0)) = [''success'' \<mapsto> PBool True, ''data'' \<mapsto> PInt 0]"
  "to_dict (api_ok (PBool False)) = [''success'' \<mapsto> PBool True, ''data'' \<mapsto> PBool False]"
  "to_dict (api_ok (PStr [])) = [''success'' \<mapsto> PBool True, ''data'' \<mapsto> PStr []]"
  "to_dict (api_ok (PList [])) = [''success'' \<mapsto> PBool True, ''data'' \<mapsto> PList []]"
  "to_dict (api_ok (PDict [])) = [''success'' \<mapsto> PBool True, ''data'' \<mapsto> PDict []]"
  "to_dict (api_ok PNone) = [''success'' \<mapsto> PBool True]"
  by (simp_all add: to_dict_unfold api_ok_fields)

subsection \<open>Where the operations Python runs do raise\<close>

lemma call_without_success_raises:
  "ApiResponseDC_call [KwData (PInt 1), KwError None] = Inl TypeError"
  by (simp add: ApiResponseDC_call_def)

lemma to_dict_run_missing_attribute_raises:
  "to_dict_run Map.empty = Inl AttributeError"
  "to_dict_run [''success'' \<mapsto> PBool True, ''data'' \<mapsto> PInt 1] = Inl AttributeError"
  by (simp_all add: to_dict_run_def py_bind_def getattr_def)

subsection \<open>The factories and their serialized form\<close>

text \<open>
  C1. For every payload \<open>v\<close>, falsy values and empty containers included,
  \<open>api_ok(v).to_dict()\<close> is exactly \<open>{"success": True, "data": v}\<close> when \<open>v\<close> is not
  \<open>None\<close>, and exactly \<open>{"success": True}\<close>, with neither a \<open>data\<close> nor an \<open>error\<close>
  key, when \<open>v\<close> is \<open>None\<close>.
\<close>

theorem api_ok_to_dict:
  "to_dict (api_ok v) =
     (if v = PNone then [''success'' \<mapsto> PBool True]
      else [''success'' \<mapsto> PBool True, ''data'' \<mapsto> v])"
  by (simp add: to_dict_unfold api_ok_fields)

text \<open>
  C2. For every string \<open>m\<close>, the empty string included, \<open>api_error(m).to_dict()\<close> is
  exactly \<open>{"success": False, "error": m}\<close>; it has no \<open>data\<close> key, and for the empty
  string the \<open>error\<close> key is present and bound to the empty string.
\<close>

theorem api_error_to_dict:
  "to_dict (api_error m) = [''success'' \<mapsto> PBool False, ''error'' \<mapsto> PStr m]
   \<and> ''data'' \<notin> dom (to_dict (api_error m))
   \<and> to_dict (api_error []) ''error'' = Some (PStr [])"
  by (simp add: to_dict_unfold api_error_fields)

text \<open>
  C3. For every envelope, whatever its three fields are, the mapping returned by
  \<open>to_dict\<close> binds \<open>success\<close> to the stored boolean, has the key \<open>data\<close> exactly when
  the stored data is not \<open>None\<close>, has the key \<open>error\<close> exactly when the stored error
  is not \<open>None\<close>, and has no other key.
\<close>

theorem to_dict_keys:
  "to_dict e ''success'' = Some (PBool (success e))
   \<and> (''data'' \<in> dom (to_dict e) \<longleftrightarrow> data e \<noteq> PNone)
   \<and> (''error'' \<in> dom (to_dict e) \<longleftrightarrow> error e \<noteq> None)
   \<and> dom (to_dict e) =
       {''success''} \<union> (if data e \<noteq> PNone then {''data''} else {})
         \<union> (if error e \<noteq> None then {''error''} else {})"
  by (auto simp add: to_dict_unfold split: option.split if_splits)

subsection \<open>Key presence and the construction path\<close>

text \<open>
  C4, as stated: for every envelope the \<open>data\<close> key is present exactly when the
  envelope came from \<open>api_ok\<close> and the stored value is not \<open>None\<close>, and the \<open>error\<close> key
  exactly when it came from \<open>api_error\<close> and the stored value is not \<open>None\<close>. This
  fails for envelopes built by a direct call of the class: \<open>to_dict\<close> reads the
  fields only. \<open>ApiResponseDC(success=False, data=1)\<close> serializes a \<open>data\<close> key and
  \<open>ApiResponseDC(success=True, error="boom")\<close> serializes an \<open>error\<close> key, though
  neither came from a factory.
\<close>

theorem named_paths_counterexample:
  "\<not> (''data'' \<in> dom (to_dict (build (Direct False (Some (PInt 1)) None)))
        \<longleftrightarrow> ok_path (Direct False (Some (PInt 1)) None)
            \<and> data (build (Direct False (Some (PInt 1)) None)) \<noteq> PNone)
   \<and> \<not> (''error'' \<in> dom (to_dict (build (Direct True None (Some (Some ''boom'')))))
        \<longleftrightarrow> fail_path (Direct True None (Some (Some ''boom'')))
            \<and> error (build (Direct True None (Some (Some ''boom'')))) \<noteq> None)"
  by (simp add: to_dict_unfold ApiResponseDC_init_def)

text \<open>
  C4, amended: for every envelope built by one of the two factories, the \<open>data\<close>
  key is present exactly when \<open>api_ok\<close> was used and the stored value is not \<open>None\<close>,
  and the \<open>error\<close> key exactly when \<open>api_error\<close> was used and the stored value is not
  \<open>None\<close>; an envelope built by \<open>api_error\<close> never serializes a \<open>data\<close> key and one
  built by \<open>api_ok\<close> never serializes an \<open>error\<close> key.
\<close>

theorem named_paths_keys:
  assumes "ok_path c \<or> fail_path c"
  shows "(''data'' \<in> dom (to_dict (build c)) \<longleftrightarrow> ok_path c \<and> data (build c) \<noteq> PNone)
       \<and> (''error'' \<in> dom (to_dict (build c)) \<longleftrightarrow> fail_path c \<and> error (build c) \<noteq> None)
       \<and> (fail_path c \<longrightarrow> ''data'' \<notin> dom (to_dict (build c)))
       \<and> (ok_path c \<longrightarrow> ''error'' \<notin> dom (to_dict (build c)))"
  using assms
  by (cases c) (simp_all add: to_dict_unfold api_ok_fields api_error_fields)

theorem named_paths_keys_witness:
  "(ok_path (ViaApiOk (PInt 0)) \<or> fail_path (ViaApiOk (PInt 0)))
   \<and> ''data'' \<in> dom (to_dict (build (ViaApiOk (PInt 0))))
   \<and> ''error'' \<notin> dom (to_dict (build (ViaApiOk (PInt 0))))
   \<and> (ok_path (ViaApiError []) \<or> fail_path (ViaApiError []))
   \<and> ''error'' \<in> dom (to_dict (build (ViaApiError [])))
   \<and> ''data'' \<notin> dom (to_dict (build (ViaApiError [])))"
  using named_paths_keys [of "ViaApiOk (PInt 0)"] named_paths_keys [of "ViaApiError []"]
  by (simp add: api_ok_fields api_error_fields)

text \<open>
  C10. Serialization follows the stored fields and not the construction path: a
  directly built envelope with \<open>success=False\<close> and a data value other than \<open>None\<close>
  serializes the \<open>data\<close> key bound to that value, one with \<open>success=True\<close> and an
  error string serializes the \<open>error\<close> key bound to that string, a mapping can hold
  all three keys at once, and a direct call with the fields of \<open>api_ok\<close> serializes
  as the factory's envelope does.
\<close>

theorem to_dict_by_fields:
  assumes "d \<noteq> PNone"
  shows "to_dict (ApiResponseDC_init False (Some d) e) ''data'' = Some d
       \<and> to_dict (ApiResponseDC_init True dk (Some (Some m))) ''error'' = Some (PStr m)
       \<and> dom (to_dict (ApiResponseDC_init s (Some d) (Some (Some m))))
           = {''success'', ''data'', ''error''}
       \<and> to_dict (build (Direct True (Some d) None)) = to_dict (build (ViaApiOk d))"
  using assms
  by (auto simp add: to_dict_unfold ApiResponseDC_init_def api_ok_def split: option.split)

theorem to_dict_by_fields_witness:
  "PInt 0 \<noteq> PNone
   \<and> to_dict (ApiResponseDC_init False (Some (PInt 0)) None) ''data'' = Some (PInt 0)
   \<and> to_dict (ApiResponseDC_init True None (Some (Some ''boom''))) ''error'' = Some (PStr ''boom'')
   \<and> dom (to_dict (ApiResponseDC_init True (Some (PInt 0)) (Some (Some ''boom''))))
       = {''success'', ''data'', ''error''}"
  using to_dict_by_fields [of "PInt 0" None None "''boom''" True]
  by simp

subsection \<open>Totality and direct construction\<close>



text \<open>
  C6. A direct call of the class stores exactly the fields it is given, for every
  combination of success flag, data value and error: the flag set together with
  an error, both data and error set, or neither. Nothing is validated.
\<close>

theorem direct_construction_stores_fields:
  "ApiResponseDC_init s (Some d) (Some e) = \<lparr>success = s, data = d, error = e\<rparr>
   \<and> success (ApiResponseDC_init s (Some d) (Some e)) = s
   \<and> data (ApiResponseDC_init s (Some d) (Some e)) = d
   \<and> error (ApiResponseDC_init s (Some d) (Some e)) = e
   \<and> ApiResponseDC_init True (Some d) (Some (Some m)) = \<lparr>success = True, data = d, error = Some m\<rparr>
   \<and> ApiResponseDC_init s None None = \<lparr>success = s, data = PNone, error = None\<rparr>"
  by (simp add: ApiResponseDC_init_def)

subsection \<open>Round trip, the two forms, and the receiver\<close>

text \<open>
  C7. Reading back the mapping that \<open>to_dict\<close> returns for an envelope gives that
  envelope again, serializing the envelope read back gives the same mapping, and
  a second call of \<open>to_dict\<close> on the receiver left by the first returns the same
  mapping as the first.
\<close>

theorem roundtrip:
  "deserialize (to_dict e) = Some e
   \<and> map_option to_dict (deserialize (to_dict e)) = Some (to_dict e)
   \<and> result (to_dict_body (to_dict_enter (self (to_dict_body (to_dict_enter e))))) = to_dict e"
proof -
  have rt: "deserialize (to_dict e) = Some e"
    by (cases e) (simp add: deserialize_def to_dict_unfold ApiResponseDC_init_def
        split: option.split)
  have again: "result (to_dict_body (to_dict_enter (self (to_dict_body (to_dict_enter e))))) = to_dict e"
    by (simp add: to_dict_body_self to_dict_enter_def to_dict_def)
  from rt again show ?thesis by simp
qed




text \<open>
  C9, as stated: the envelope is an immutable value whose fields are fixed at
  construction. They are not fixed: the class is a plain dataclass, not a frozen
  one, so \<^verbatim>\<open>e = api_ok(1); e.success = False\<close> succeeds and the envelope then
  holds \<open>success = False\<close>.
\<close>

theorem fields_fixed_counterexample:
  "success (api_ok (PInt 1)) = True
   \<and> setattr_DC (api_ok (PInt 1)) (AssignSuccess False)
       = Inr \<lparr>success = False, data = PInt 1, error = None\<rparr>
   \<and> setattr_DC (api_ok (PInt 1)) (AssignSuccess False) \<noteq> Inr (api_ok (PInt 1))
   \<and> setattr_DC (api_ok (PInt 1)) (AssignSuccess False) \<noteq> Inl FrozenInstanceError"
  by (simp add: setattr_DC_def ApiResponseDC_frozen_def api_ok_def ApiResponseDC_init_def)

text \<open>
  C9, amended: no operation of the component changes the fields of an envelope
  after its construction: no statement of \<open>to_dict\<close> assigns to the receiver, so
  the receiver after the call is the receiver before it (the factories take no
  envelope). The fields are not fixed by the class: it is not frozen, and an
  attribute assignment by a caller succeeds and replaces the field.
\<close>

theorem to_dict_leaves_receiver:
  "self (to_dict_body (to_dict_enter e)) = e
   \<and> self (stmt_success fr) = self fr
   \<and> self (stmt_data fr) = self fr
   \<and> self (stmt_error fr) = self fr
   \<and> setattr_DC e (AssignSuccess b) = Inr (e\<lparr>success := b\<rparr>)
   \<and> setattr_DC e (AssignData v) = Inr (e\<lparr>data := v\<rparr>)
   \<and> setattr_DC e (AssignError m) = Inr (e\<lparr>error := m\<rparr>)"
  by (simp add: to_dict_body_self to_dict_enter_def stmt_success_def stmt_data_def
      stmt_error_def setattr_DC_def ApiResponseDC_frozen_def split: option.split)

end
